theory Spec2Isabelle
  imports Complex_Main
begin

section \<open>Python numbers and errors\<close>

text \<open>
  The training script and the offline MFU script compute with Python \<open>int\<close> (unbounded,
  modelled as \<^typ>\<open>int\<close>) and Python \<open>float\<close>. A float is modelled as an exact rational
  (\<^typ>\<open>rat\<close>): the rounding of IEEE double arithmetic is not part of this model, so every
  equation below is one of exact arithmetic. A field that holds an \<open>int\<close> at one time and a
  \<open>float\<close> at another (\<open>val_frequency\<close>, \<open>model_log_frequency\<close>, \<open>lr_warmup\<close>) is a
  \<^typ>\<open>rat\<close>; the operators the code applies to it (\<open><\<close>, \<open>*\<close>, \<open>/\<close>, \<open>int()\<close>) do not
  tell the two apart.
\<close>

datatype error =
    ValueError string
  | ZeroDivisionError
  | TypeError
  | KeyError string
  | ConfigError

text \<open>Python's \<open>int(x)\<close> on a float: truncation towards zero.\<close>

definition py_int :: "rat \<Rightarrow> int" where
  "py_int x = (if 0 \<le> x then \<lfloor>x\<rfloor> else \<lceil>x\<rceil>)"


section \<open>The training arguments (\<open>train.py\<close>, class \<open>TrainingArgs\<close>)\<close>




section \<open>Training constants (\<open>train.py\<close>, \<open>main\<close>)\<close>




section \<open>Batch plan (\<open>handle_batch_size_logic_\<close>)\<close>



section \<open>The offline MFU script (\<open>compute_mfu.py\<close>)\<close>

text \<open>
  A run of the experiment-tracking store has a name, a configuration and a summary; both
  are dictionaries from strings to values, and a value is a number or a nested dictionary
  (\<open>summary["TokensPerSecond"]\<close> is \<open>{"mean": ...}\<close>).
\<close>

datatype pyval = Num rat | Dict "(string \<times> pyval) list"

record run =
  name :: string
  config :: "string \<rightharpoonup> pyval"
  summary :: "string \<rightharpoonup> pyval"

text \<open>\<open>d[k]\<close> on a dictionary raises \<open>KeyError\<close> for a missing key.\<close>

definition getitem :: "(string \<rightharpoonup> pyval) \<Rightarrow> string \<Rightarrow> error + pyval" where
  "getitem d k = (case d k of None \<Rightarrow> Inl (KeyError k) | Some v \<Rightarrow> Inr v)"

text \<open>\<open>v[k]\<close> on a value: a number is not subscriptable.\<close>

definition subscript :: "pyval \<Rightarrow> string \<Rightarrow> error + pyval" where
  "subscript v k = (case v of Num _ \<Rightarrow> Inl TypeError | Dict kvs \<Rightarrow> getitem (map_of kvs) k)"

text \<open>\<open>v / n\<close> for a non-zero literal \<open>n\<close>: a dictionary is not a number.\<close>

definition div_by :: "pyval \<Rightarrow> rat \<Rightarrow> error + rat" where
  "div_by v n = (case v of Num x \<Rightarrow> Inr (x / n) | Dict _ \<Rightarrow> Inl TypeError)"

text \<open>The module-level constants.\<close>

definition gpu_constant :: rat where "gpu_constant = 15485 / 100"
definition parameters :: rat where "parameters = 125000000 / 10 ^ 9"
definition layers :: rat where "layers = 12"
definition heads :: rat where "heads = 12"
definition head_dimension :: rat where "head_dimension = 64 / 10 ^ 6"

text \<open>
  The right-hand side of \<open>R = gpu_constant / (6*parameters + ...)\<close>, as a function of the
  six names it reads, and \<open>R\<close> itself at the module's constants.
\<close>

definition R_expr :: "rat \<Rightarrow> rat \<Rightarrow> rat \<Rightarrow> rat \<Rightarrow> rat \<Rightarrow> rat \<Rightarrow> error + rat" where
  "R_expr c p l h d s =
     (if 6 * p + 12 * l * h * d * s = 0 then Inl ZeroDivisionError
      else Inr (c / (6 * p + 12 * l * h * d * s)))"

definition R :: "rat \<Rightarrow> error + rat" where
  "R sequence_length = R_expr gpu_constant parameters layers heads head_dimension sequence_length"

text \<open>\<open>mfu = mean_tokens / R\<close>.\<close>

definition mfu :: "rat \<Rightarrow> rat \<Rightarrow> error + rat" where
  "mfu mean_tokens r = (if r = 0 then Inl ZeroDivisionError else Inr (mean_tokens / r))"

text \<open>
  The two assignments to \<open>run.summary\<close>. They change the local copy of the summary only.
\<close>

definition set_summary :: "run \<Rightarrow> rat \<Rightarrow> rat \<Rightarrow> run" where
  "set_summary r m rr =
     r\<lparr>summary := (summary r)(''mean_mfu'' \<mapsto> Num m, ''max_tokens_theoretical'' \<mapsto> Num (rr * 1000))\<rparr>"

text \<open>
  The body of the loop, in the order of the source. \<open>update\<close> is the store's commit
  operation \<open>run.summary.update()\<close>: it receives the run with its changed summary and
  answers with the run as the store now holds it, or with an error. The first component
  of the result is what the body printed: the run's name and the MFU (the two-decimal
  formatting of the number is not modelled).
\<close>

definition process_run :: "(run \<Rightarrow> error + run) \<Rightarrow> run \<Rightarrow> (string \<times> rat) list \<times> (error + run)" where
  "process_run update r =
     (case getitem (config r) ''max_sequence_length'' of
        Inl e \<Rightarrow> ([], Inl e)
      | Inr msl \<Rightarrow>
     (case div_by msl (10 ^ 3) of
        Inl e \<Rightarrow> ([], Inl e)
      | Inr sequence_length \<Rightarrow>
     (case R sequence_length of
        Inl e \<Rightarrow> ([], Inl e)
      | Inr rr \<Rightarrow>
     (case getitem (summary r) ''TokensPerSecond'' of
        Inl e \<Rightarrow> ([], Inl e)
      | Inr tps \<Rightarrow>
     (case subscript tps ''mean'' of
        Inl e \<Rightarrow> ([], Inl e)
      | Inr mean \<Rightarrow>
     (case div_by mean 1000 of
        Inl e \<Rightarrow> ([], Inl e)
      | Inr mean_tokens \<Rightarrow>
     (case mfu mean_tokens rr of
        Inl e \<Rightarrow> ([], Inl e)
      | Inr m \<Rightarrow> ([(name r, m)], update (set_summary r m rr)))))))))"

text \<open>
  \<open>for run in runs\<close>: there is no exception handler, so the first error ends the script.
  The result is everything printed, the runs as the store holds them afterwards (a run
  whose body raised is as it was, and so is every run after it), and the error that ended
  the script, if any.
\<close>

fun backfill :: "(run \<Rightarrow> error + run) \<Rightarrow> run list \<Rightarrow> (string \<times> rat) list \<times> run list \<times> error option" where
  "backfill update [] = ([], [], None)"
| "backfill update (r # runs) =
     (case process_run update r of
        (out, Inl e) \<Rightarrow> (out, r # runs, Some e)
      | (out, Inr r') \<Rightarrow>
          (case backfill update runs of
             (out', runs', err) \<Rightarrow> (out @ out', r' # runs', err)))"

section \<open>Facts about the conversions\<close>


lemma py_int_of_int: "py_int (of_int n) = n"
  by (simp add: py_int_def)









section \<open>Facts about the batch plan\<close>




section \<open>The schedule resolution\<close>












section \<open>Facts about the MFU script\<close>

lemma R_expr_pos:
  assumes "0 < c" "0 < p" "0 < l" "0 < h" "0 < d" "0 < s"
  shows "R_expr c p l h d s = Inr (c / (6 * p + 12 * l * h * d * s))"
proof -
  have "0 < 6 * p + 12 * l * h * d * s"
    using assms by (simp add: add_pos_pos)
  then show ?thesis by (simp add: R_expr_def)
qed

lemma R_nonneg:
  assumes "0 \<le> s"
  shows "R s = Inr (gpu_constant / (6 * parameters + 12 * layers * heads * head_dimension * s))"
    and "0 < gpu_constant / (6 * parameters + 12 * layers * heads * head_dimension * s)"
proof -
  have "0 \<le> 12 * layers * heads * head_dimension * s"
    using assms by (simp add: layers_def heads_def head_dimension_def)
  moreover have "0 < 6 * parameters" by (simp add: parameters_def)
  ultimately have d: "0 < 6 * parameters + 12 * layers * heads * head_dimension * s"
    by (rule add_pos_nonneg[rotated])
  then show "R s = Inr (gpu_constant / (6 * parameters + 12 * layers * heads * head_dimension * s))"
    by (simp add: R_def R_expr_def)
  show "0 < gpu_constant / (6 * parameters + 12 * layers * heads * head_dimension * s)"
    using d by (simp add: gpu_constant_def)
qed

lemma R_Inr_nonzero: "R s = Inr rr \<Longrightarrow> rr \<noteq> 0"
  by (auto simp: R_def R_expr_def gpu_constant_def split: if_splits)

lemma process_run_reads:
  assumes "config r ''max_sequence_length'' = Some (Num s)"
      and "R (s / 1000) = Inr rr"
      and "summary r ''TokensPerSecond'' = Some (Dict kvs)"
      and "map_of kvs ''mean'' = Some (Num t)"
  shows "process_run update r =
           ([(name r, t / 1000 / rr)], update (set_summary r (t / 1000 / rr) rr))"
  using assms R_Inr_nonzero[OF assms(2)]
  by (simp add: process_run_def getitem_def div_by_def subscript_def mfu_def)

lemma peak_scale:
  assumes "0 \<le> s"
  shows "gpu_constant / (6 * parameters + 12 * layers * heads * head_dimension * (s / 1000)) * 1000
         = 154850000000000 / (6 * 125000000 + 12 * 12 * 12 * 64 * s)"
proof -
  have "0 < 750000000 + 110592 * s" using assms by simp
  then show ?thesis 
    by (simp add: gpu_constant_def parameters_def layers_def heads_def head_dimension_def field_simps)
qed

lemma process_run_cases:
  "(\<exists>e. process_run update r = ([], Inl e)) \<or>
   (\<exists>s rr kvs t.
      config r ''max_sequence_length'' = Some (Num s) \<and>
      R (s / 1000) = Inr rr \<and> rr \<noteq> 0 \<and>
      summary r ''TokensPerSecond'' = Some (Dict kvs) \<and>
      map_of kvs ''mean'' = Some (Num t) \<and>
      process_run update r =
        ([(name r, t / 1000 / rr)], update (set_summary r (t / 1000 / rr) rr)))"
  by (auto simp: process_run_def getitem_def div_by_def subscript_def mfu_def
           split: option.splits pyval.splits sum.splits dest: R_Inr_nonzero)

lemma backfill_None:
  assumes "backfill update runs = (outs, runs', None)"
  shows "length runs' = length runs \<and>
         (\<forall>i<length runs. \<exists>out. process_run update (runs ! i) = (out, Inr (runs' ! i)))"
  using assms
proof (induction runs arbitrary: outs runs')
  case Nil
  then show ?case by simp
next
  case (Cons r runs)
  obtain out res where p: "process_run update r = (out, res)" by (cases "process_run update r")
  obtain o2 rs2 e2 where b: "backfill update runs = (o2, rs2, e2)" by (cases "backfill update runs")
  from Cons.prems p b obtain r' where res: "res = Inr r'" and e2: "e2 = None" and rs: "runs' = r' # rs2"
    by (cases res) auto
  from Cons.IH[of o2 rs2] b e2 have IH: "length rs2 = length runs"
    "\<forall>i<length runs. \<exists>out. process_run update (runs ! i) = (out, Inr (rs2 ! i))" by auto
  show ?case
  proof (intro conjI allI impI)
    show "length runs' = length (r # runs)" using rs IH(1) by simp
  next
    fix i assume "i < length (r # runs)"
    then show "\<exists>out. process_run update ((r # runs) ! i) = (out, Inr (runs' ! i))"
      using p res rs IH(2) by (cases i) auto
  qed
qed

lemma R_512: "R (512 / 1000) = Inr (7421875 / 38661)"
  by code_simp

section \<open>The MFU estimate\<close>

text \<open>
  C6. For positive constants the expression for \<open>R\<close> raises nothing and is
  \<open>C / (6*P + 12*L*H*d*S)\<close>, and \<open>mfu\<close> is the observed rate divided by the peak. In the
  script the constants are scaled (the hardware constant in units of \<open>10\<^sup>1\<^sup>2\<close>, the parameter
  count of \<open>10\<^sup>9\<close>, the head dimension of \<open>10\<^sup>6\<close>, the sequence length and the rates of
  \<open>10\<^sup>3\<close>); in unscaled terms, for a run with a positive \<open>max_sequence_length\<close> \<open>S\<close> and a
  recorded mean rate \<open>t\<close>, it writes \<open>max_tokens_theoretical = C / (6*P + 12*L*H*d*S)\<close> with
  \<open>C = 154.85 * 10\<^sup>1\<^sup>2\<close>, \<open>P = 125000000\<close>, \<open>L = H = 12\<close>, \<open>d = 64\<close>, and
  \<open>mean_mfu = t / max_tokens_theoretical\<close>.
\<close>

theorem mfu_estimator_formulas:
  "(0 < c \<and> 0 < p \<and> 0 < l \<and> 0 < h \<and> 0 < d \<and> 0 < s \<longrightarrow>
      R_expr c p l h d s = Inr (c / (6 * p + 12 * l * h * d * s)))
   \<and> (peak \<noteq> 0 \<longrightarrow> mfu observed peak = Inr (observed / peak))
   \<and> (config r ''max_sequence_length'' = Some (Num S) \<and> 0 < S \<and>
       summary r ''TokensPerSecond'' = Some (Dict kvs) \<and> map_of kvs ''mean'' = Some (Num t) \<longrightarrow>
       process_run update r =
         ([(name r, t / (154850000000000 / (6 * 125000000 + 12 * 12 * 12 * 64 * S)))],
          update (r\<lparr>summary := (summary r)
            (''mean_mfu'' \<mapsto> Num (t / (154850000000000 / (6 * 125000000 + 12 * 12 * 12 * 64 * S))),
             ''max_tokens_theoretical'' \<mapsto>
                Num (154850000000000 / (6 * 125000000 + 12 * 12 * 12 * 64 * S)))\<rparr>)))"
proof (intro conjI impI)
  assume "0 < c \<and> 0 < p \<and> 0 < l \<and> 0 < h \<and> 0 < d \<and> 0 < s"
  then show "R_expr c p l h d s = Inr (c / (6 * p + 12 * l * h * d * s))"
    by (simp add: R_expr_pos)
next
  assume "peak \<noteq> 0"
  then show "mfu observed peak = Inr (observed / peak)" by (simp add: mfu_def)
next
  assume a: "config r ''max_sequence_length'' = Some (Num S) \<and> 0 < S \<and>
       summary r ''TokensPerSecond'' = Some (Dict kvs) \<and> map_of kvs ''mean'' = Some (Num t)"
  let ?rr = "gpu_constant / (6 * parameters + 12 * layers * heads * head_dimension * (S / 1000))"
  let ?peak = "154850000000000 / (6 * 125000000 + 12 * 12 * 12 * 64 * S)"
  have S: "0 \<le> S / 1000" "0 \<le> S" using a by simp_all
  have R: "R (S / 1000) = Inr ?rr" by (rule R_nonneg(1)[OF S(1)])
  have peak: "?rr * 1000 = ?peak" by (rule peak_scale[OF S(2)])
  have rr: "?rr \<noteq> 0" by (rule R_Inr_nonzero[OF R])
  have m: "t / 1000 / ?rr = t / ?peak"
    unfolding peak[symmetric] using rr by (simp add: field_simps)
  have "process_run update r =
          ([(name r, t / 1000 / ?rr)], update (set_summary r (t / 1000 / ?rr) ?rr))"
    using a R by (simp add: process_run_reads)
  then show "process_run update r =
         ([(name r, t / ?peak)],
          update (r\<lparr>summary := (summary r)
            (''mean_mfu'' \<mapsto> Num (t / ?peak), ''max_tokens_theoretical'' \<mapsto> Num ?peak)\<rparr>))"
    unfolding set_summary_def m peak .
qed

theorem mfu_estimator_formulas_witness:
  "R_expr (15485 / 100) (1 / 8) 12 12 (64 / 1000000) (512 / 1000)
     = Inr ((15485 / 100) / (6 * (1 / 8) + 12 * 12 * 12 * (64 / 1000000) * (512 / 1000)))
   \<and> mfu 100 (7421875 / 38661) = Inr (100 / (7421875 / 38661))
   \<and> process_run Inr
        \<lparr>name = ''a'', config = [''max_sequence_length'' \<mapsto> Num 512],
         summary = [''TokensPerSecond'' \<mapsto> Dict [(''mean'', Num 100000)]]\<rparr>
      = ([(''a'', 100000 / (154850000000000 / (6 * 125000000 + 12 * 12 * 12 * 64 * 512)))],
         Inr \<lparr>name = ''a'', config = [''max_sequence_length'' \<mapsto> Num 512],
              summary = [''TokensPerSecond'' \<mapsto> Dict [(''mean'', Num 100000)],
                         ''mean_mfu'' \<mapsto>
                           Num (100000 / (154850000000000 / (6 * 125000000 + 12 * 12 * 12 * 64 * 512))),
                         ''max_tokens_theoretical'' \<mapsto>
                           Num (154850000000000 / (6 * 125000000 + 12 * 12 * 12 * 64 * 512))]\<rparr>)"
proof -
  let ?r = "\<lparr>name = ''a'', config = [''max_sequence_length'' \<mapsto> Num 512],
         summary = [''TokensPerSecond'' \<mapsto> Dict [(''mean'', Num 100000)]]\<rparr>"
  note t = mfu_estimator_formulas[of "15485 / 100" "1 / 8" 12 12 "64 / 1000000" "512 / 1000" "7421875 / 38661" 100
               ?r 512 "[(''mean'', Num 100000)]" 100000 Inr]
  have 1: "R_expr (15485 / 100) (1 / 8) 12 12 (64 / 1000000) (512 / 1000)
     = Inr ((15485 / 100) / (6 * (1 / 8) + 12 * 12 * 12 * (64 / 1000000) * (512 / 1000)))"
    using t by simp
  have 2: "mfu 100 (7421875 / 38661) = Inr (100 / (7421875 / 38661))"
    using t by simp
  have 3: "process_run Inr ?r
      = ([(''a'', 100000 / (154850000000000 / (6 * 125000000 + 12 * 12 * 12 * 64 * 512)))],
         Inr \<lparr>name = ''a'', config = [''max_sequence_length'' \<mapsto> Num 512],
              summary = [''TokensPerSecond'' \<mapsto> Dict [(''mean'', Num 100000)],
                         ''mean_mfu'' \<mapsto>
                           Num (100000 / (154850000000000 / (6 * 125000000 + 12 * 12 * 12 * 64 * 512))),
                         ''max_tokens_theoretical'' \<mapsto>
                           Num (154850000000000 / (6 * 125000000 + 12 * 12 * 12 * 64 * 512))]\<rparr>)"
    using t by simp
  from 1 2 3 show ?thesis by blast
qed

text \<open>
  C7. For a positive peak, \<open>mfu\<close> of \<open>peak * k\<close> and \<open>peak\<close> is \<open>k\<close>, for every \<open>k\<close> and so
  for every \<open>k\<close> in (0, 2]. In the script: when the recorded mean rate of a run is \<open>k\<close>
  times the peak that the script writes for it (\<open>R * 1000\<close>), the \<open>mean_mfu\<close> it prints and
  writes is \<open>k\<close> itself; nothing bounds it by 1.
\<close>

theorem mfu_round_trip_unclamped:
  "(0 < peak \<longrightarrow> mfu (peak * k) peak = Inr k)
   \<and> (config r ''max_sequence_length'' = Some (Num S) \<and> R (S / 1000) = Inr rr \<and>
       summary r ''TokensPerSecond'' = Some (Dict kvs) \<and>
       map_of kvs ''mean'' = Some (Num (rr * 1000 * k)) \<longrightarrow>
       process_run update r = ([(name r, k)], update (set_summary r k rr)) \<and>
       summary (set_summary r k rr) ''mean_mfu'' = Some (Num k) \<and>
       summary (set_summary r k rr) ''max_tokens_theoretical'' = Some (Num (rr * 1000)))"
proof (intro conjI impI)
  assume "0 < peak"
  then show "mfu (peak * k) peak = Inr k" by (simp add: mfu_def)
next
  assume a: "config r ''max_sequence_length'' = Some (Num S) \<and> R (S / 1000) = Inr rr \<and>
       summary r ''TokensPerSecond'' = Some (Dict kvs) \<and>
       map_of kvs ''mean'' = Some (Num (rr * 1000 * k))"
  then have "R (S / 1000) = Inr rr" by simp
  then have "rr \<noteq> 0" by (rule R_Inr_nonzero)
  then have "rr * 1000 * k / 1000 / rr = k" by simp
  with a process_run_reads[of r S rr kvs "rr * 1000 * k" update]
  show "process_run update r = ([(name r, k)], update (set_summary r k rr))" by simp
next
  show "summary (set_summary r k rr) ''mean_mfu'' = Some (Num k)"
    by (simp add: set_summary_def)
next
  show "summary (set_summary r k rr) ''max_tokens_theoretical'' = Some (Num (rr * 1000))"
    by (simp add: set_summary_def)
qed

theorem mfu_round_trip_unclamped_witness:
  "mfu (200 * (3 / 2)) 200 = Inr (3 / 2)
   \<and> process_run Inr
        \<lparr>name = ''a'', config = [''max_sequence_length'' \<mapsto> Num 512],
         summary = [''TokensPerSecond'' \<mapsto> Dict [(''mean'', Num (7421875 / 38661 * 1000 * (3 / 2)))]]\<rparr>
      = ([(''a'', 3 / 2)],
         Inr (set_summary
           \<lparr>name = ''a'', config = [''max_sequence_length'' \<mapsto> Num 512],
            summary = [''TokensPerSecond'' \<mapsto> Dict [(''mean'', Num (7421875 / 38661 * 1000 * (3 / 2)))]]\<rparr>
           (3 / 2) (7421875 / 38661)))
   \<and> (1::rat) < 3 / 2"
proof -
  let ?r = "\<lparr>name = ''a'', config = [''max_sequence_length'' \<mapsto> Num 512],
         summary = [''TokensPerSecond'' \<mapsto> Dict [(''mean'', Num (7421875 / 38661 * 1000 * (3 / 2)))]]\<rparr>"
  note t = mfu_round_trip_unclamped[of 200 "3 / 2" ?r 512 "7421875 / 38661"
              "[(''mean'', Num (7421875 / 38661 * 1000 * (3 / 2)))]" Inr]
  have 1: "mfu (200 * (3 / 2)) 200 = Inr (3 / 2)"
    using t[THEN conjunct1] by simp
  have 2: "process_run Inr ?r = ([(''a'', 3 / 2)], Inr (set_summary ?r (3 / 2) (7421875 / 38661)))"
    using t[THEN conjunct2] R_512 by simp
  from 1 2 show ?thesis by simp
qed

section \<open>The write-back\<close>

text \<open>
  C8. The body of the loop either raises while reading, before it has printed or written
  anything, or it sets exactly the two summary fields \<open>mean_mfu\<close> and
  \<open>max_tokens_theoretical\<close> and then calls the store's update on the run so changed. When
  the whole script ends without an error, every run the store holds afterwards is the
  answer of such an update.
\<close>

theorem two_summary_fields_then_update:
  "((\<exists>e. process_run update r = ([], Inl e)) \<or>
    (\<exists>m b. process_run update r =
       ([(name r, m)],
        update (r\<lparr>summary := (summary r)(''mean_mfu'' \<mapsto> Num m,
                                          ''max_tokens_theoretical'' \<mapsto> Num b)\<rparr>))))
   \<and> (backfill update runs = (outs, runs', None) \<longrightarrow>
        length runs' = length runs \<and>
        (\<forall>i<length runs. \<exists>m b.
           update ((runs ! i)\<lparr>summary := (summary (runs ! i))(''mean_mfu'' \<mapsto> Num m,
                                          ''max_tokens_theoretical'' \<mapsto> Num b)\<rparr>)
             = Inr (runs' ! i)))"
proof (intro conjI impI)
  show "(\<exists>e. process_run update r = ([], Inl e)) \<or>
    (\<exists>m b. process_run update r =
       ([(name r, m)],
        update (r\<lparr>summary := (summary r)(''mean_mfu'' \<mapsto> Num m,
                                          ''max_tokens_theoretical'' \<mapsto> Num b)\<rparr>)))"
    using process_run_cases[of update r] unfolding set_summary_def by blast
next
  assume b: "backfill update runs = (outs, runs', None)"
  show "length runs' = length runs" using backfill_None[OF b] by simp
next
  assume b: "backfill update runs = (outs, runs', None)"
  show "\<forall>i<length runs. \<exists>m b.
           update ((runs ! i)\<lparr>summary := (summary (runs ! i))(''mean_mfu'' \<mapsto> Num m,
                                          ''max_tokens_theoretical'' \<mapsto> Num b)\<rparr>)
             = Inr (runs' ! i)"
  proof (intro allI impI)
    fix i assume "i < length runs"
    then obtain out where p: "process_run update (runs ! i) = (out, Inr (runs' ! i))"
      using backfill_None[OF b] by blast
    with process_run_cases[of update "runs ! i"]
    show "\<exists>m b.
           update ((runs ! i)\<lparr>summary := (summary (runs ! i))(''mean_mfu'' \<mapsto> Num m,
                                          ''max_tokens_theoretical'' \<mapsto> Num b)\<rparr>)
             = Inr (runs' ! i)"
      unfolding set_summary_def by force
  qed
qed

theorem two_summary_fields_then_update_witness:
  "(\<exists>m b. process_run Inr
        \<lparr>name = ''a'', config = [''max_sequence_length'' \<mapsto> Num 512],
         summary = [''TokensPerSecond'' \<mapsto> Dict [(''mean'', Num 100000)]]\<rparr>
      = ([(''a'', m)],
         Inr \<lparr>name = ''a'', config = [''max_sequence_length'' \<mapsto> Num 512],
              summary = [''TokensPerSecond'' \<mapsto> Dict [(''mean'', Num 100000)],
                         ''mean_mfu'' \<mapsto> Num m, ''max_tokens_theoretical'' \<mapsto> Num b]\<rparr>))
   \<and> (\<exists>outs r' m b.
         backfill Inr
           [\<lparr>name = ''a'', config = [''max_sequence_length'' \<mapsto> Num 512],
             summary = [''TokensPerSecond'' \<mapsto> Dict [(''mean'', Num 100000)]]\<rparr>]
           = (outs, [r'], None) \<and>
         r' = \<lparr>name = ''a'', config = [''max_sequence_length'' \<mapsto> Num 512],
               summary = [''TokensPerSecond'' \<mapsto> Dict [(''mean'', Num 100000)],
                          ''mean_mfu'' \<mapsto> Num m, ''max_tokens_theoretical'' \<mapsto> Num b]\<rparr>)"
proof -
  let ?r = "\<lparr>name = ''a'', config = [''max_sequence_length'' \<mapsto> Num 512],
         summary = [''TokensPerSecond'' \<mapsto> Dict [(''mean'', Num 100000)]]\<rparr>"
  let ?m = "100000 / 1000 / (7421875 / 38661) :: rat"
  let ?w = "set_summary ?r ?m (7421875 / 38661)"
  have p: "process_run Inr ?r = ([(''a'', ?m)], Inr ?w)"
    using process_run_reads[of ?r 512 "7421875 / 38661" "[(''mean'', Num 100000)]" 100000 Inr] R_512
    by simp
  then have "process_run Inr ?r \<noteq> ([], Inl e)" for e
    by simp
  with two_summary_fields_then_update[of Inr ?r "[]" "[]" "[]", THEN conjunct1]
  have 1: "\<exists>m b. process_run Inr ?r
      = ([(''a'', m)],
         Inr \<lparr>name = ''a'', config = [''max_sequence_length'' \<mapsto> Num 512],
              summary = [''TokensPerSecond'' \<mapsto> Dict [(''mean'', Num 100000)],
                         ''mean_mfu'' \<mapsto> Num m, ''max_tokens_theoretical'' \<mapsto> Num b]\<rparr>)"
    by simp
  have b: "backfill Inr [?r] = ([(''a'', ?m)], [?w], None)"
    unfolding backfill.simps p by simp
  from two_summary_fields_then_update[of Inr ?r "[?r]" "[(''a'', ?m)]" "[?w]", THEN conjunct2, rule_format, OF b]
  have "\<exists>m b. (Inr (?r\<lparr>summary := (summary ?r)(''mean_mfu'' \<mapsto> Num m,
                                         ''max_tokens_theoretical'' \<mapsto> Num b)\<rparr>) :: error + run)
             = Inr ?w"
    by simp
  then obtain m b where eq:
    "\<lparr>name = ''a'', config = [''max_sequence_length'' \<mapsto> Num 512],
      summary = [''TokensPerSecond'' \<mapsto> Dict [(''mean'', Num 100000)],
                 ''mean_mfu'' \<mapsto> Num m, ''max_tokens_theoretical'' \<mapsto> Num b]\<rparr> = ?w"
    by auto
  from b eq[symmetric] have 2: "\<exists>outs r' m b.
         backfill Inr [?r] = (outs, [r'], None) \<and>
         r' = \<lparr>name = ''a'', config = [''max_sequence_length'' \<mapsto> Num 512],
               summary = [''TokensPerSecond'' \<mapsto> Dict [(''mean'', Num 100000)],
                          ''mean_mfu'' \<mapsto> Num m, ''max_tokens_theoretical'' \<mapsto> Num b]\<rparr>"
    by blast
  from 1 2 show ?thesis by blast
qed

text \<open>
  C9, as the claim states it, fails: the first of two runs has no \<open>TokensPerSecond\<close> in its
  summary; the \<open>KeyError\<close> ends the script, and the second run, which could be analysed, is
  left as it was.
\<close>

theorem backfill_stops_at_first_error_counterexample:
  "backfill Inr
     [\<lparr>name = ''a'', config = [''max_sequence_length'' \<mapsto> Num 512], summary = Map.empty\<rparr>,
      \<lparr>name = ''b'', config = [''max_sequence_length'' \<mapsto> Num 512],
       summary = [''TokensPerSecond'' \<mapsto> Dict [(''mean'', Num 100000)]]\<rparr>]
   = ([],
      [\<lparr>name = ''a'', config = [''max_sequence_length'' \<mapsto> Num 512], summary = Map.empty\<rparr>,
       \<lparr>name = ''b'', config = [''max_sequence_length'' \<mapsto> Num 512],
        summary = [''TokensPerSecond'' \<mapsto> Dict [(''mean'', Num 100000)]]\<rparr>],
      Some (KeyError ''TokensPerSecond''))"
  using R_512 by (simp add: process_run_def getitem_def div_by_def)

text \<open>
  C9, amended. When reading or writing the store fails for one run, the script ends with
  that error: the runs before it have been processed, and that run and all the runs after
  it are left as they were.
\<close>

theorem backfill_stops_at_first_error:
  assumes "backfill update pre = (out, pre', None)"
      and "process_run update r = (out', Inl e)"
  shows "backfill update (pre @ r # post) = (out @ out', pre' @ r # post, Some e)"
  using assms
proof (induction pre arbitrary: out pre')
  case Nil
  then show ?case by simp
next
  case (Cons x pre)
  obtain o1 res where p: "process_run update x = (o1, res)" by (cases "process_run update x")
  obtain o2 rs2 e2 where b: "backfill update pre = (o2, rs2, e2)" by (cases "backfill update pre")
  from Cons.prems(1) p b obtain x' where res: "res = Inr x'" and e2: "e2 = None"
    and o: "out = o1 @ o2" and rs: "pre' = x' # rs2"
    by (cases res) auto
  from Cons.IH[of o2 rs2] b e2 Cons.prems(2)
  have "backfill update (pre @ r # post) = (o2 @ out', rs2 @ r # post, Some e)" by simp
  then show ?case using p res o rs by simp
qed

theorem backfill_stops_at_first_error_witness:
  "\<exists>out pre'.
     backfill Inr
       [\<lparr>name = ''b'', config = [''max_sequence_length'' \<mapsto> Num 512],
         summary = [''TokensPerSecond'' \<mapsto> Dict [(''mean'', Num 100000)]]\<rparr>,
        \<lparr>name = ''a'', config = [''max_sequence_length'' \<mapsto> Num 512], summary = Map.empty\<rparr>,
        \<lparr>name = ''c'', config = [''max_sequence_length'' \<mapsto> Num 512],
         summary = [''TokensPerSecond'' \<mapsto> Dict [(''mean'', Num 200000)]]\<rparr>]
     = (out,
        pre' @
        [\<lparr>name = ''a'', config = [''max_sequence_length'' \<mapsto> Num 512], summary = Map.empty\<rparr>,
         \<lparr>name = ''c'', config = [''max_sequence_length'' \<mapsto> Num 512],
          summary = [''TokensPerSecond'' \<mapsto> Dict [(''mean'', Num 200000)]]\<rparr>],
        Some (KeyError ''TokensPerSecond''))
     \<and> length pre' = 1"
proof -
  let ?b = "\<lparr>name = ''b'', config = [''max_sequence_length'' \<mapsto> Num 512],
         summary = [''TokensPerSecond'' \<mapsto> Dict [(''mean'', Num 100000)]]\<rparr>"
  let ?a = "\<lparr>name = ''a'', config = [''max_sequence_length'' \<mapsto> Num 512], summary = Map.empty\<rparr>"
  let ?c = "\<lparr>name = ''c'', config = [''max_sequence_length'' \<mapsto> Num 512],
         summary = [''TokensPerSecond'' \<mapsto> Dict [(''mean'', Num 200000)]]\<rparr>"
  let ?m = "100000 / 1000 / (7421875 / 38661) :: rat"
  have pre: "backfill Inr [?b] = ([(''b'', ?m)], [set_summary ?b ?m (7421875 / 38661)], None)"
    using process_run_reads[of ?b 512 "7421875 / 38661" "[(''mean'', Num 100000)]" 100000 Inr] R_512
    by simp
  have bad: "process_run Inr ?a = ([], Inl (KeyError ''TokensPerSecond''))"
    using R_512 by (simp add: process_run_def getitem_def div_by_def)
  have e: "backfill Inr [?b, ?a, ?c] =
             ([(''b'', ?m)], [set_summary ?b ?m (7421875 / 38661), ?a, ?c],
              Some (KeyError ''TokensPerSecond''))"
    using backfill_stops_at_first_error[OF pre bad, of "[?c]"] by (simp only: append_Cons append_Nil)
  show ?thesis
    unfolding e
    by (rule exI[of _ "[(''b'', ?m)]"], rule exI[of _ "[set_summary ?b ?m (7421875 / 38661)]"])
       simp
qed

text \<open>
  C10. For every run that the script has processed, the two values written to its summary
  multiply to the run's recorded \<open>TokensPerSecond\<close> mean.
\<close>

theorem written_fields_multiply_to_throughput:
  assumes "process_run update r = (out, Inr r')"
  shows "\<exists>m b kvs t.
           summary r ''TokensPerSecond'' = Some (Dict kvs) \<and>
           map_of kvs ''mean'' = Some (Num t) \<and>
           update (r\<lparr>summary := (summary r)(''mean_mfu'' \<mapsto> Num m,
                                            ''max_tokens_theoretical'' \<mapsto> Num b)\<rparr>) = Inr r' \<and>
           m * b = t"
proof -
  from process_run_cases[of update r] assms
  obtain s rr kvs t where
    "config r ''max_sequence_length'' = Some (Num s)" and
    rr: "rr \<noteq> 0" and
    tps: "summary r ''TokensPerSecond'' = Some (Dict kvs)" "map_of kvs ''mean'' = Some (Num t)" and
    p: "process_run update r =
        ([(name r, t / 1000 / rr)], update (set_summary r (t / 1000 / rr) rr))"
    by auto
  have u: "update (r\<lparr>summary := (summary r)(''mean_mfu'' \<mapsto> Num (t / 1000 / rr),
                                            ''max_tokens_theoretical'' \<mapsto> Num (rr * 1000))\<rparr>) = Inr r'"
    using p assms by (simp add: set_summary_def)
  have "t / 1000 / rr * (rr * 1000) = t" using rr by simp
  with tps u show ?thesis by blast
qed

theorem written_fields_multiply_to_throughput_witness:
  "\<exists>m b.
     snd (process_run Inr
        \<lparr>name = ''a'', config = [''max_sequence_length'' \<mapsto> Num 512],
         summary = [''TokensPerSecond'' \<mapsto> Dict [(''mean'', Num 100000)]]\<rparr>)
      = Inr \<lparr>name = ''a'', config = [''max_sequence_length'' \<mapsto> Num 512],
             summary = [''TokensPerSecond'' \<mapsto> Dict [(''mean'', Num 100000)],
                        ''mean_mfu'' \<mapsto> Num m, ''max_tokens_theoretical'' \<mapsto> Num b]\<rparr>
     \<and> m * b = 100000"
proof -
  let ?r = "\<lparr>name = ''a'', config = [''max_sequence_length'' \<mapsto> Num 512],
         summary = [''TokensPerSecond'' \<mapsto> Dict [(''mean'', Num 100000)]]\<rparr>"
  let ?m = "100000 / 1000 / (7421875 / 38661) :: rat"
  have p: "process_run Inr ?r = ([(''a'', ?m)], Inr (set_summary ?r ?m (7421875 / 38661)))"
    using process_run_reads[of ?r 512 "7421875 / 38661" "[(''mean'', Num 100000)]" 100000 Inr] R_512
    by simp
  from written_fields_multiply_to_throughput[OF p] obtain m b kvs t where
    k: "summary ?r ''TokensPerSecond'' = Some (Dict kvs)" "map_of kvs ''mean'' = Some (Num t)" and
    w: "Inr (?r\<lparr>summary := (summary ?r)(''mean_mfu'' \<mapsto> Num m, ''max_tokens_theoretical'' \<mapsto> Num b)\<rparr>)
       = (Inr (set_summary ?r ?m (7421875 / 38661)) :: error + run)" and
    mb: "m * b = t"
    by blast
  have "t = 100000" using k by auto
  moreover have "snd (process_run Inr ?r) =
     Inr (?r\<lparr>summary := (summary ?r)(''mean_mfu'' \<mapsto> Num m, ''max_tokens_theoretical'' \<mapsto> Num b)\<rparr>)"
    unfolding p w by simp
  ultimately show ?thesis using mb by auto
qed

end
